theory Spec2Isabelle
  imports Complex_Main "HOL-Library.Sublist"
begin

section \<open>Values shared by the two services\<close>

text \<open>
  The gateway and the KG-API exchange JSON. A Python \<open>dict\<close> decoded from JSON is
  an association list read with \<^const>\<open>map_of\<close>; decoded dicts have no duplicate keys.
  Python floats are idealised as real numbers: rounding, infinities and NaN are not
  part of this development. Python strings are \<^typ>\<open>string\<close>, one \<^typ>\<open>char\<close>
  per code point below 256.
\<close>

datatype json =
    JNull
  | JBool bool
  | JNum real
  | JStr string
  | JArr "json list"
  | JObj "(string \<times> json) list"

type_synonym dict = "(string \<times> json) list"

text \<open>
  What a call can raise. \<open>HTTPException n\<close> is FastAPI's exception with status code
  \<open>n\<close> (the detail text is not modelled); \<open>PyError\<close> is any other Python exception
  (\<open>AttributeError\<close>, \<open>TypeError\<close>, \<open>IndexError\<close>, a transport error of
  \<open>httpx\<close>, ...), which FastAPI answers with status 500 when nothing catches it.
\<close>

datatype error = HTTPException nat | PyError

section \<open>Claims, evidence and provenance\<close>

text \<open>
  The pydantic models. The gateway's \<open>Evidence\<close>, \<open>Provenance\<close> and \<open>ClaimIn\<close>
  have the fields of KG-API's \<open>EvidenceModel\<close>, \<open>ProvenanceModel\<close> and
  \<open>ClaimProposal\<close>; the last adds \<open>status\<close>, which is what
  \<open>payload = claim.model_dump(); payload["status"] = status\<close> builds.
  The field \<open>when\<close> is written \<open>when_ts\<close>.
\<close>

record Evidence =
  uri_or_blob_ref :: string
  snippet :: "string option"
  hash :: "string option"
  source_type :: string
  quality_score :: "real option"
  timestamp :: "real option"

record Provenance =
  who :: "string option"
  when_ts :: "real option"
  prompt_hash :: "string option"
  model_version :: "string option"
  git_sha :: "string option"
  image_digest :: "string option"
  run_id :: "string option"
  dataset_uri :: "string option"
  sensor_id :: "string option"
  frame_ts :: "real option"

record ClaimIn =
  subject_id :: string
  predicate :: string
  object_kind :: string
  object_value :: string
  model_conf :: "real option"
  human_conf :: "real option"
  context_hash :: "string option"
  evidence :: "Evidence list"
  provenance :: "Provenance option"

record ClaimProposal = ClaimIn +
  status :: "string option"

section \<open>KG-API: the claim ledger\<close>

text \<open>
  The graph store as the ledger's queries see it. A \<open>Claim\<close> node carries the
  properties of its proposal and its \<open>id\<close> (written \<open>claim_id\<close>); its
  \<open>evidence\<close> field stands for the \<open>Evidence\<close> nodes linked to it by
  \<open>SUPPORTS\<close>. \<open>entities\<close> are the ids of the \<open>Entity\<close> nodes (unique by the
  constraint created at startup), \<open>edges\<close> the relationships between \<open>Entity\<close>
  nodes as (start id, type, end id), in creation order and with repetitions: the
  procedure \<open>apoc.create.relationship\<close> creates a new relationship at every call,
  and Neo4j keeps parallel relationships of one type. \<open>evidence_rows\<close> is the
  Postgres table. Timestamps (\<open>created_at\<close>, the default of \<open>when\<close>), the
  ids of \<open>Evidence\<close> nodes and a failing Postgres insert are not modelled.
  \<open>driver\<close> and \<open>pg_conn\<close> say whether the two connections are initialised.
\<close>

record Claim = ClaimProposal +
  claim_id :: string

record store =
  driver :: bool
  pg_conn :: bool
  entities :: "string set"
  claims :: "Claim list"
  edges :: "(string \<times> string \<times> string) list"
  evidence_rows :: "Evidence list"

definition empty_store :: store where
  "empty_store = \<lparr>driver = True, pg_conn = True, entities = {}, claims = [], edges = [],
                    evidence_rows = []\<rparr>"

text \<open>
  \<^verbatim>\<open>
  def _ensure_entity(tx, entity_id: str) -> None:
      tx.run("MERGE (e:Entity {id:$id}) ON CREATE SET e.created_at=timestamp()", id=entity_id)
  \<close>
\<close>

definition ensure_entity :: "string \<Rightarrow> store \<Rightarrow> store" where
  "ensure_entity entity_id st = st\<lparr>entities := insert entity_id (entities st)\<rparr>"

text \<open>
  The query of \<open>propose_claim\<close> that materialises the relation:
  \<^verbatim>\<open>
  MATCH (c:Claim {id:$cid})
  MATCH (s:Entity {id:$s})
  MATCH (o:Entity {id:$o})
  CALL apoc.create.relationship(s, $pred, {}, o) YIELD rel
  SET c.status='approved'
  \<close>
  One relationship is created, and one status written, for every row the three
  \<open>MATCH\<close> clauses produce.
\<close>

definition materialize :: "string \<Rightarrow> string \<Rightarrow> string \<Rightarrow> string \<Rightarrow> store \<Rightarrow> store" where
  "materialize cid s pred obj st =
     (let hit = (\<lambda>c. claim_id c = cid \<and> s \<in> entities st \<and> obj \<in> entities st)
      in st\<lparr>edges := edges st @ map (\<lambda>c. (s, pred, obj)) (filter hit (claims st)),
            claims := map (\<lambda>c. if hit c then c\<lparr>status := Some ''approved''\<rparr> else c) (claims st)\<rparr>)"

text \<open>
  The query of \<open>approve\<close> for an entity claim:
  \<^verbatim>\<open>
  MATCH (c:Claim {id:$id})
  MATCH (s:Entity {id:c.subject_id})
  MATCH (o:Entity {id:c.object_value})
  CALL apoc.create.relationship(s, c.predicate, {}, o) YIELD rel
  SET c.status='approved'
  \<close>
\<close>

definition approve_entity :: "string \<Rightarrow> store \<Rightarrow> store" where
  "approve_entity cid st =
     (let hit = (\<lambda>c. claim_id c = cid \<and> subject_id c \<in> entities st \<and> object_value c \<in> entities st)
      in st\<lparr>edges := edges st @ map (\<lambda>c. (subject_id c, predicate c, object_value c))
                                     (filter hit (claims st)),
            claims := map (\<lambda>c. if hit c then c\<lparr>status := Some ''approved''\<rparr> else c) (claims st)\<rparr>)"

text \<open>\<^verbatim>\<open>MATCH (c:Claim {id:$id}) SET c.status=...\<close>\<close>

definition set_status :: "string \<Rightarrow> string \<Rightarrow> store \<Rightarrow> store" where
  "set_status cid v st =
     st\<lparr>claims := map (\<lambda>c. if claim_id c = cid then c\<lparr>status := Some v\<rparr> else c) (claims st)\<rparr>"

text \<open>
  \<^verbatim>\<open>
  def propose_claim(claim: ClaimProposal) -> Dict[str, Any]:
      if not driver:
          raise HTTPException(500, "Neo4j driver not initialized")
      def _tx(tx):
          _ensure_entity(tx, claim.subject_id)
          if claim.object_kind == "entity":
              _ensure_entity(tx, claim.object_value)
          rec = tx.run("CREATE (c:Claim {id: apoc.create.uuid(), ...}) RETURN c", ...).single()
          c = rec["c"]
          for e in claim.evidence:
              tx.run("CREATE (ev:Evidence {...}) WITH ev MATCH (c:Claim {id:$cid})
                      CREATE (c)-[:SUPPORTS]->(ev)", ...)
              _write_evidence_pg(e)
          if claim.status == "approved" and claim.object_kind == "entity":
              tx.run(<the query above>, cid=c["id"], s=claim.subject_id,
                     o=claim.object_value, pred=claim.predicate)
          return c
      with driver.session() as s:
          created = s.execute_write(_tx)
      return {"ok": True, "claim": _serialize_neo4j(created)}
  \<close>
  The first argument is the value \<open>apoc.create.uuid()\<close> returns in this call. The
  store refuses a second \<open>Claim\<close> with the same id (the uniqueness constraint): the
  transaction is rolled back and the exception leaves the handler.
\<close>

definition kg_propose_claim :: "string \<Rightarrow> ClaimProposal \<Rightarrow> store \<Rightarrow> (error + Claim) \<times> store" where
  "kg_propose_claim u claim st =
     (if \<not> driver st then (Inl (HTTPException 500), st)
      else if u \<in> claim_id ` set (claims st) then (Inl PyError, st)
      else
        let st1 = ensure_entity (subject_id claim) st;
            st2 = (if object_kind claim = ''entity'' then ensure_entity (object_value claim) st1
                   else st1);
            c = \<lparr>subject_id = subject_id claim, predicate = predicate claim,
                 object_kind = object_kind claim, object_value = object_value claim,
                 model_conf = model_conf claim, human_conf = human_conf claim,
                 context_hash = context_hash claim, evidence = evidence claim,
                 provenance = provenance claim, status = status claim, claim_id = u\<rparr>;
            st3 = st2\<lparr>claims := claims st2 @ [c],
                      evidence_rows := (if pg_conn st2 then evidence_rows st2 @ evidence claim
                                        else evidence_rows st2)\<rparr>;
            st4 = (if status claim = Some ''approved'' \<and> object_kind claim = ''entity''
                   then materialize u (subject_id claim) (predicate claim) (object_value claim) st3
                   else st3)
        in (Inr c, st4))"

text \<open>
  \<^verbatim>\<open>
  def approve(body: ClaimIdBody) -> Dict[str, Any]:
      if not driver:
          raise HTTPException(500, "Neo4j driver not initialized")
      def _tx(tx):
          rec = tx.run("MATCH (c:Claim {id:$id}) RETURN c", id=body.claim_id).single()
          if not rec:
              raise HTTPException(404, "Claim not found")
          c = rec["c"]
          if c["object_kind"] == "entity":
              tx.run(<the query above>, id=body.claim_id)
          else:
              tx.run("MATCH (c:Claim {id:$id}) SET c.status='approved'", id=body.claim_id)
          return True
      with driver.session() as s:
          s.execute_write(_tx)
      return {"ok": True}
  \<close>
\<close>

definition kg_approve :: "string \<Rightarrow> store \<Rightarrow> (error + unit) \<times> store" where
  "kg_approve cid st =
     (if \<not> driver st then (Inl (HTTPException 500), st)
      else case find (\<lambda>c. claim_id c = cid) (claims st) of
             None \<Rightarrow> (Inl (HTTPException 404), st)
           | Some c \<Rightarrow>
               if object_kind c = ''entity'' then (Inr (), approve_entity cid st)
               else (Inr (), set_status cid ''approved'' st))"

text \<open>
  \<^verbatim>\<open>
  def reject(body: ClaimIdBody) -> Dict[str, Any]:
      if not driver:
          raise HTTPException(500, "Neo4j driver not initialized")
      with driver.session() as s:
          s.run("MATCH (c:Claim {id:$id}) SET c.status='rejected'", id=body.claim_id)
      return {"ok": True}
  \<close>
\<close>

definition kg_reject :: "string \<Rightarrow> store \<Rightarrow> (error + unit) \<times> store" where
  "kg_reject cid st =
     (if \<not> driver st then (Inl (HTTPException 500), st)
      else (Inr (), set_status cid ''rejected'' st))"

text \<open>
  The ledger's answer to the gateway's conflict query, sent through \<open>/cypher\<close>:
  \<^verbatim>\<open>
  MATCH (s:Entity {id:$sid})-[r]->(o)
  WHERE type(r) = $pred
  RETURN collect(distinct o.id) AS objs
  \<close>
  An aggregation without grouping keys returns exactly one row, so the handler
  answers \<open>{"records": [{"objs": [...]}]}\<close>.
\<close>

definition conflict_objs :: "string \<Rightarrow> string \<Rightarrow> store \<Rightarrow> string list" where
  "conflict_objs sid pred st =
     remdups (map (\<lambda>(s, p, obj). obj) (filter (\<lambda>(s, p, obj). s = sid \<and> p = pred) (edges st)))"

definition kg_cypher_conflicts :: "string \<Rightarrow> string \<Rightarrow> store \<Rightarrow> error + json" where
  "kg_cypher_conflicts sid pred st =
     (if \<not> driver st then Inl (HTTPException 500)
      else Inr (JObj [(''records'', JArr [JObj [(''objs'', JArr (map JStr (conflict_objs sid pred st)))]])]))"

text \<open>A sequence of ledger requests, each with the uuid it draws when it is a proposal.\<close>

datatype request = Propose string ClaimProposal | Approve string | Reject string

fun handle :: "request \<Rightarrow> store \<Rightarrow> store" where
  "handle (Propose u claim) st = snd (kg_propose_claim u claim st)"
| "handle (Approve cid) st = snd (kg_approve cid st)"
| "handle (Reject cid) st = snd (kg_reject cid st)"

definition run :: "request list \<Rightarrow> store \<Rightarrow> store" where
  "run reqs st = fold handle reqs st"

fun is_reject :: "request \<Rightarrow> bool" where
  "is_reject (Reject cid) = True"
| "is_reject _ = False"

section \<open>Agent gateway: the policy gate\<close>

text \<open>
  The thresholds come from the environment (\<open>TIER_AUTO_TRUST_THRESHOLD\<close>, default
  0.85, and \<open>TIER_MIN_EVIDENCE_QUALITY\<close>, default 0.70); the two sets are constants
  of the package.
\<close>

record config =
  AUTO_TRUST :: real
  MIN_QUAL :: real

definition default_config :: config where
  "default_config = \<lparr>AUTO_TRUST = 0.85, MIN_QUAL = 0.70\<rparr>"

definition AUTO_MERGE_PREDICATES :: "string set" where
  "AUTO_MERGE_PREDICATES = {''USES'', ''INGESTS'', ''PRODUCES''}"

definition FIRST_PARTY :: "string set" where
  "FIRST_PARTY = {''first_party_log'', ''config'', ''run_artifact''}"

text \<open>\<open>x or 0.0\<close> for an optional float: \<open>None\<close> and \<open>0.0\<close> are both falsy.\<close>

definition or_zero :: "real option \<Rightarrow> real" where
  "or_zero x = (case x of None \<Rightarrow> 0 | Some v \<Rightarrow> v)"

text \<open>
  \<^verbatim>\<open>
  def _trust_score(claim: ClaimIn) -> float:
      qual = max((e.quality_score or 0.0) for e in claim.evidence) if claim.evidence else 0.0
      first_party_bonus = 0.15 if all((e.source_type in FIRST_PARTY) for e in claim.evidence) and claim.evidence else 0.0
      model_conf = claim.model_conf or 0.0
      raw = 0.5 * qual + 0.4 * model_conf + first_party_bonus
      return max(0.0, min(1.0, raw))
  \<close>
  \<open>max\<close> over the generator keeps a running maximum from the first item on.
\<close>

definition trust_score :: "ClaimIn \<Rightarrow> real" where
  "trust_score claim =
     (let qual = (case map (\<lambda>e. or_zero (quality_score e)) (evidence claim) of
                    [] \<Rightarrow> 0
                  | q # qs \<Rightarrow> fold max qs q);
          first_party_bonus =
            (if list_all (\<lambda>e. source_type e \<in> FIRST_PARTY) (evidence claim) \<and> evidence claim \<noteq> []
             then 0.15 else 0);
          mc = or_zero (model_conf claim);
          raw = 0.5 * qual + 0.4 * mc + first_party_bonus
      in max 0 (min 1 raw))"

text \<open>
  \<^verbatim>\<open>
  async def _has_conflicts(claim: ClaimIn) -> bool:
      q = <the conflict query>
      try:
          res = await _kg_post("/cypher", {"query": q, "params": {"sid": claim.subject_id, "pred": claim.predicate}})
          objs = (res.get("records", [{}])[0] or {}).get("objs", [])
          if claim.object_kind == "entity":
              return any(o != claim.object_value for o in objs)
          return False
      except Exception:
          return True
  \<close>
  The second argument of \<open>has_conflicts\<close> is what \<open>_kg_post\<close> returned or raised.
  The response is dynamically typed, and every step that can raise is a branch:
  \<open>.get\<close> on a value that is not a dict, \<open>[0]\<close> on an empty list or string, on a
  dict (its keys are strings) or on \<open>null\<close>, a boolean or a number, and the iteration
  over \<open>objs\<close> when it is \<open>null\<close>, a boolean or a number.
\<close>

fun truthy :: "json \<Rightarrow> bool" where
  "truthy JNull = False"
| "truthy (JBool b) = b"
| "truthy (JNum x) = (x \<noteq> 0)"
| "truthy (JStr s) = (s \<noteq> [])"
| "truthy (JArr xs) = (xs \<noteq> [])"
| "truthy (JObj d) = (d \<noteq> [])"

text \<open>\<open>res.get("records", [{}])[0]\<close>\<close>

definition first_record :: "json \<Rightarrow> error + json" where
  "first_record res =
     (case res of
        JObj d \<Rightarrow>
          (case (case map_of d ''records'' of None \<Rightarrow> JArr [JObj []] | Some r \<Rightarrow> r) of
             JArr (x # xs) \<Rightarrow> Inr x
           | JStr (c # cs) \<Rightarrow> Inr (JStr [c])
           | _ \<Rightarrow> Inl PyError)
      | _ \<Rightarrow> Inl PyError)"

text \<open>\<open>(x or {}).get("objs", [])\<close>\<close>

definition record_objs :: "json \<Rightarrow> error + json" where
  "record_objs x =
     (if \<not> truthy x then Inr (JArr [])
      else case x of
             JObj d \<Rightarrow> Inr (case map_of d ''objs'' of None \<Rightarrow> JArr [] | Some v \<Rightarrow> v)
           | _ \<Rightarrow> Inl PyError)"

text \<open>\<open>for o in objs\<close>: the items of a list, the characters of a string, the keys of a dict.\<close>

definition py_iter :: "json \<Rightarrow> error + json list" where
  "py_iter v =
     (case v of
        JArr xs \<Rightarrow> Inr xs
      | JStr s \<Rightarrow> Inr (map (\<lambda>c. JStr [c]) s)
      | JObj d \<Rightarrow> Inr (map (\<lambda>(k, x). JStr k) d)
      | _ \<Rightarrow> Inl PyError)"

text \<open>The body of the \<open>try\<close> block, after the call.\<close>

definition conflicts_try :: "ClaimIn \<Rightarrow> error + json \<Rightarrow> error + bool" where
  "conflicts_try claim resp =
     (case resp of
        Inl e \<Rightarrow> Inl e
      | Inr res \<Rightarrow>
          (case first_record res of
             Inl e \<Rightarrow> Inl e
           | Inr x \<Rightarrow>
               (case record_objs x of
                  Inl e \<Rightarrow> Inl e
                | Inr objs \<Rightarrow>
                    if object_kind claim = ''entity''
                    then (case py_iter objs of
                            Inl e \<Rightarrow> Inl e
                          | Inr os \<Rightarrow> Inr (list_ex (\<lambda>obj. obj \<noteq> JStr (object_value claim)) os))
                    else Inr False)))"

definition has_conflicts :: "ClaimIn \<Rightarrow> error + json \<Rightarrow> bool" where
  "has_conflicts claim resp = (case conflicts_try claim resp of Inl e \<Rightarrow> True | Inr b \<Rightarrow> b)"

text \<open>
  The three requests the policy gate sends to KG-API through \<open>_kg_post\<close>, over a
  state \<open>'w\<close> of the other side: the conflict query with its two parameters, the
  proposal, and the approval of a claim id. Each returns what \<open>_kg_post\<close> returned
  or raised (it raises \<open>HTTPException\<close> with the response's status when that is 400
  or more) and the new state.
\<close>

record 'w kg_api =
  cypher_conflicts :: "string \<Rightarrow> string \<Rightarrow> 'w \<Rightarrow> (error + json) \<times> 'w"
  post_propose_claim :: "ClaimProposal \<Rightarrow> 'w \<Rightarrow> (error + Claim) \<times> 'w"
  post_approve :: "string \<Rightarrow> 'w \<Rightarrow> (error + unit) \<times> 'w"

text \<open>
  The answer of the gate; its constant entry \<open>"ok": True\<close> is left out, and
  \<open>kg\<close> is the claim of the ledger's answer. The \<open>try\<close> block around the
  follow-up approval swallows whatever it raises, so only the state it leaves counts.
\<close>

record gate_out =
  decision :: string
  trust :: real
  min_quality_ok :: bool
  no_conflict :: bool
  kg :: Claim

definition with_status :: "ClaimIn \<Rightarrow> string \<Rightarrow> ClaimProposal" where
  "with_status claim st =
     \<lparr>subject_id = subject_id claim, predicate = predicate claim,
      object_kind = object_kind claim, object_value = object_value claim,
      model_conf = model_conf claim, human_conf = human_conf claim,
      context_hash = context_hash claim, evidence = evidence claim,
      provenance = provenance claim, status = Some st\<rparr>"

text \<open>
  \<^verbatim>\<open>
  async def propose_claim(claim: ClaimIn, _=Depends(require_key)) -> Dict[str, Any]:
      trust = _trust_score(claim)
      min_qual_ok = all((e.quality_score or 0.0) >= MIN_QUAL for e in claim.evidence) if claim.evidence else False
      no_conflict = not await _has_conflicts(claim)
      auto_merge = (claim.predicate in AUTO_MERGE_PREDICATES and claim.object_kind == "entity" and
                    trust >= AUTO_TRUST and min_qual_ok and no_conflict)
      status = "approved" if auto_merge else "pending"
      payload = claim.model_dump()
      payload["status"] = status
      created = await _kg_post("/propose_claim", payload)
      if status == "approved":
          try:
              cid = created["claim"]["id"]
              await _kg_post("/approve", {"claim_id": cid})
          except Exception:
              pass
      return {"ok": True, "decision": "T1-auto-merge" if auto_merge else "T2-review",
              "trust": trust, "min_quality_ok": min_qual_ok, "no_conflict": no_conflict,
              "kg": created}
  \<close>
\<close>

definition gw_propose_claim :: "config \<Rightarrow> 'w kg_api \<Rightarrow> ClaimIn \<Rightarrow> 'w \<Rightarrow> (error + gate_out) \<times> 'w" where
  "gw_propose_claim cfg K claim w =
     (let tr = trust_score claim;
          min_qual_ok = (if evidence claim \<noteq> []
                         then list_all (\<lambda>e. MIN_QUAL cfg \<le> or_zero (quality_score e)) (evidence claim)
                         else False);
          (resp, w1) = cypher_conflicts K (subject_id claim) (predicate claim) w;
          no_confl = \<not> has_conflicts claim resp;
          auto_merge = (predicate claim \<in> AUTO_MERGE_PREDICATES \<and> object_kind claim = ''entity'' \<and>
                        AUTO_TRUST cfg \<le> tr \<and> min_qual_ok \<and> no_confl);
          st = (if auto_merge then ''approved'' else ''pending'');
          (created, w2) = post_propose_claim K (with_status claim st) w1
      in case created of
           Inl e \<Rightarrow> (Inl e, w2)
         | Inr c \<Rightarrow>
             (Inr \<lparr>decision = (if auto_merge then ''T1-auto-merge'' else ''T2-review''),
                   trust = tr, min_quality_ok = min_qual_ok, no_conflict = no_confl, kg = c\<rparr>,
              if st = ''approved'' then snd (post_approve K (claim_id c) w2) else w2))"

text \<open>
  The gate in front of the ledger above. FastAPI answers an exception that is not an
  \<open>HTTPException\<close> with status 500, which \<open>_kg_post\<close> raises as such.
\<close>

definition via_http :: "error + 'a \<Rightarrow> error + 'a" where
  "via_http r = (case r of Inl PyError \<Rightarrow> Inl (HTTPException 500) | _ \<Rightarrow> r)"

definition kg_live :: "string \<Rightarrow> store kg_api" where
  "kg_live u =
     \<lparr>cypher_conflicts = (\<lambda>sid pred st. (kg_cypher_conflicts sid pred st, st)),
      post_propose_claim = (\<lambda>claim st. case kg_propose_claim u claim st of (r, st') \<Rightarrow> (via_http r, st')),
      post_approve = (\<lambda>cid st. case kg_approve cid st of (r, st') \<Rightarrow> (via_http r, st'))\<rparr>"

section \<open>Agent gateway: the cypher filter and the tool dispatch\<close>

text \<open>
  \<^verbatim>\<open>
  def _cypher_safe(query: str) -> bool:
      bad = ["name:", "HAS_KNOWLEDGE", "CREATE ", "MERGE ", "DELETE ", "SET "]
      return not any(b in query for b in bad)
  \<close>
  Python's \<open>b in query\<close> on strings is the contiguous-substring test,
  \<^const>\<open>sublist\<close>.
\<close>

definition bad :: "string list" where
  "bad = [''name:'', ''HAS_KNOWLEDGE'', ''CREATE '', ''MERGE '', ''DELETE '', ''SET '']"

definition cypher_safe :: "string \<Rightarrow> bool" where
  "cypher_safe query = (\<not> list_ex (\<lambda>b. sublist b query) bad)"

text \<open>
  The external calls of the gateway. \<open>generate\<close> stands for \<open>_call_llm\<close> and
  \<open>post\<close> for \<open>_kg_post\<close>: each takes the state of the outside world and returns
  what the call returned or raised together with the new world. Every call made is
  appended to a log, so that theorems can speak about which calls happened.
\<close>

record message =
  role :: string
  content :: string

datatype call = CallLLM "message list" | KgPost string json

record 'w env =
  generate :: "message list \<Rightarrow> 'w \<Rightarrow> (error + string) \<times> 'w"
  post :: "string \<Rightarrow> json \<Rightarrow> 'w \<Rightarrow> (error + json) \<times> 'w"

type_synonym 'w io = "call list \<times> 'w"

definition call_llm :: "'w env \<Rightarrow> message list \<Rightarrow> 'w io \<Rightarrow> (error + string) \<times> 'w io" where
  "call_llm E messages = (\<lambda>(calls, w).
     let (r, w') = generate E messages w in (r, (calls @ [CallLLM messages], w')))"

definition kg_post :: "'w env \<Rightarrow> string \<Rightarrow> json \<Rightarrow> 'w io \<Rightarrow> (error + json) \<times> 'w io" where
  "kg_post E path body = (\<lambda>(calls, w).
     let (r, w') = post E path body w in (r, (calls @ [KgPost path body], w')))"

text \<open>
  \<^verbatim>\<open>
  async def _dispatch_tool(req: dict) -> dict:
      tool = req.get("tool")
      args = req.get("args", {})
      if tool == "cypher":
          q = args.get("query","")
          if not _cypher_safe(q):
              raise HTTPException(400, f"Rejected unsafe/unknown Cypher: {q[:120]}")
      if tool == "neighbors":
          return await _kg_post("/neighbors", args)
      if tool == "propose_claim":
          return await _kg_post("/propose_claim", args)
      if tool == "cypher":
          return await _kg_post("/cypher", args)
      raise HTTPException(400, f"Unknown tool: {tool}")
  \<close>
  The request is dynamically typed. \<open>args.get\<close> raises unless \<open>args\<close> is a dict.
  \<open>b in q\<close> is the substring test on a string, membership on a list, key membership
  on a dict, and raises on anything else; \<open>q[:120]\<close> in the message raises on a dict.
\<close>

definition cypher_guard :: "json \<Rightarrow> error + unit" where
  "cypher_guard args =
     (case args of
        JObj d \<Rightarrow>
          (case (case map_of d ''query'' of None \<Rightarrow> JStr [] | Some q \<Rightarrow> q) of
             JStr q \<Rightarrow> if \<not> cypher_safe q then Inl (HTTPException 400) else Inr ()
           | JArr xs \<Rightarrow> if list_ex (\<lambda>b. JStr b \<in> set xs) bad then Inl (HTTPException 400) else Inr ()
           | JObj kvs \<Rightarrow> if list_ex (\<lambda>b. b \<in> fst ` set kvs) bad then Inl PyError else Inr ()
           | _ \<Rightarrow> Inl PyError)
      | _ \<Rightarrow> Inl PyError)"

definition dispatch_tool :: "'w env \<Rightarrow> dict \<Rightarrow> 'w io \<Rightarrow> (error + json) \<times> 'w io" where
  "dispatch_tool E req io =
     (let tool = map_of req ''tool'';
          args = (case map_of req ''args'' of None \<Rightarrow> JObj [] | Some a \<Rightarrow> a)
      in case (if tool = Some (JStr ''cypher'') then cypher_guard args else Inr ()) of
           Inl e \<Rightarrow> (Inl e, io)
         | Inr _ \<Rightarrow>
             if tool = Some (JStr ''neighbors'') then kg_post E ''/neighbors'' args io
             else if tool = Some (JStr ''propose_claim'') then kg_post E ''/propose_claim'' args io
             else if tool = Some (JStr ''cypher'') then kg_post E ''/cypher'' args io
             else (Inl (HTTPException 400), io))"

section \<open>Agent gateway: reading the model's answer\<close>

text \<open>
  Whitespace as Python's \<open>str.strip\<close> and the regular expression class \<open>\s\<close>
  see it (both use the same table), for the code points below 256.
\<close>

definition isspace :: "char \<Rightarrow> bool" where
  "isspace c = (of_char c \<in> {9, 10, 11, 12, 13, 28, 29, 30, 31, 32, 133, 160 :: nat})"

definition strip :: "string \<Rightarrow> string" where
  "strip s = rev (dropWhile isspace (rev (dropWhile isspace s)))"

text \<open>
  \<^verbatim>\<open>s = re.sub(r'^\s*\[TOOL_RESULT\]\s*', '', s)\<close>: the pattern is anchored at the
  start, so it matches at most once: leading whitespace, the token, and the whitespace
  after it.
\<close>

definition sub_tool_result :: "string \<Rightarrow> string" where
  "sub_tool_result s =
     (let t = dropWhile isspace s
      in if prefix ''[TOOL_RESULT]'' t
         then dropWhile isspace (drop (length ''[TOOL_RESULT]'') t)
         else s)"

text \<open>
  \<^verbatim>\<open>s = re.sub(r'\s*\[END_TOOL_RESULT\]\s*$', '', s)\<close>: the pattern matches only
  when the text ends with the token and optional whitespace; the match then begins
  with the whitespace before the token and runs to the end of the text.
\<close>

definition sub_end_tool_result :: "string \<Rightarrow> string" where
  "sub_end_tool_result s =
     (let r = dropWhile isspace (rev s)
      in if prefix (rev ''[END_TOOL_RESULT]'') r
         then rev (dropWhile isspace (drop (length ''[END_TOOL_RESULT]'') r))
         else s)"

text \<open>
  \<^verbatim>\<open>m = re.search(r"\{.*\}", s, flags=re.DOTALL)\<close>: the leftmost match starts at the
  first opening brace and, the star being greedy, ends at the last closing brace
  after it; there is no match when no closing brace follows the first opening one.
\<close>

definition search_braces :: "string \<Rightarrow> string option" where
  "search_braces s =
     (let t = dropWhile (\<lambda>c. c \<noteq> CHR ''{'') s;
          r = dropWhile (\<lambda>c. c \<noteq> CHR ''}'') (rev t)
      in if r = [] then None else Some (rev r))"

text \<open>
  The library functions and module constants the gateway uses without defining them:
  \<open>json.loads\<close> (applied only to a text that starts with an opening brace, so that
  its result, when there is one, is a dict; \<open>None\<close> stands for the exception it
  raises), \<open>json.dumps\<close>, the system prompt, and the two pattern matchers of the
  fast path, whose regular expressions are not interpreted here.
\<close>

record lib =
  json_loads :: "string \<Rightarrow> dict option"
  json_dumps :: "json \<Rightarrow> string"
  SYSTEM_PROMPT :: string
  maybe_route_add_claim :: "string \<Rightarrow> dict option"
  maybe_route_neighbors :: "string \<Rightarrow> dict option"

text \<open>
  \<^verbatim>\<open>
  def _extract_json(s: str) -> dict:
      s = re.sub(r'^\s*\[TOOL_RESULT\]\s*', '', s)
      s = re.sub(r'\s*\[END_TOOL_RESULT\]\s*$', '', s)
      m = re.search(r"\{.*\}", s, flags=re.DOTALL)
      if m:
          try:
              return json.loads(m.group(0))
          except Exception:
              pass
      return {"final": {"answer": s.strip() or ""}}
  \<close>
\<close>

definition unwrap :: "string \<Rightarrow> string" where
  "unwrap s = sub_end_tool_result (sub_tool_result s)"

definition coerce_final :: "string \<Rightarrow> dict" where
  "coerce_final s = [(''final'', JObj [(''answer'', JStr (strip s))])]"

definition extract_json :: "lib \<Rightarrow> string \<Rightarrow> dict" where
  "extract_json L s0 =
     (let s = unwrap s0
      in case search_braces s of
           None \<Rightarrow> coerce_final s
         | Some m \<Rightarrow> (case json_loads L m of Some d \<Rightarrow> d | None \<Rightarrow> coerce_final s))"

section \<open>Agent gateway: the query loop\<close>

datatype trace_entry = Assistant string | Tool_result json

record query_in =
  question :: string
  max_steps :: int

record query_out =
  ok :: bool
  answer :: json
  trace :: "trace_entry list"
  data :: "json option"

text \<open>
  \<open>obj["final"].get("answer","")\<close>: raises unless the value under \<open>final\<close> is a
  dict.
\<close>

definition final_answer :: "dict \<Rightarrow> error + json" where
  "final_answer obj =
     (case map_of obj ''final'' of
        Some (JObj f) \<Rightarrow> Inr (case map_of f ''answer'' of Some a \<Rightarrow> a | None \<Rightarrow> JStr [])
      | _ \<Rightarrow> Inl PyError)"

text \<open>
  \<^verbatim>\<open>
  for _ in range(max(1, body.max_steps)):
      assistant_text = await _call_llm(messages)
      trace.append({"assistant": assistant_text})
      obj = _extract_json(assistant_text)
      if "final" in obj:
          return {"ok": True, "answer": obj["final"].get("answer",""), "trace": trace}
      result = await _dispatch_tool(obj)
      trace.append({"tool_result": result})
      messages += [{"role":"assistant","content": assistant_text},
                   {"role":"tool","content": json.dumps(result)}]
  return {"ok": True, "answer":"(stopped: max_steps)", "trace": trace}
  \<close>
  The first argument counts the iterations that remain.
\<close>

fun agent_loop ::
  "nat \<Rightarrow> 'w env \<Rightarrow> lib \<Rightarrow> message list \<Rightarrow> trace_entry list \<Rightarrow> 'w io
     \<Rightarrow> (error + query_out) \<times> 'w io" where
  "agent_loop 0 E L messages tr io =
     (Inr \<lparr>ok = True, answer = JStr ''(stopped: max_steps)'', trace = tr, data = None\<rparr>, io)"
| "agent_loop (Suc n) E L messages tr io =
     (case call_llm E messages io of
        (Inl e, io1) \<Rightarrow> (Inl e, io1)
      | (Inr assistant_text, io1) \<Rightarrow>
          (let trace1 = tr @ [Assistant assistant_text];
               obj = extract_json L assistant_text
           in if ''final'' \<in> fst ` set obj
              then (case final_answer obj of
                      Inl e \<Rightarrow> (Inl e, io1)
                    | Inr a \<Rightarrow> (Inr \<lparr>ok = True, answer = a, trace = trace1, data = None\<rparr>, io1))
              else (case dispatch_tool E obj io1 of
                      (Inl e, io2) \<Rightarrow> (Inl e, io2)
                    | (Inr result, io2) \<Rightarrow>
                        agent_loop n E L
                          (messages @ [\<lparr>role = ''assistant'', content = assistant_text\<rparr>,
                                       \<lparr>role = ''tool'', content = json_dumps L result\<rparr>])
                          (trace1 @ [Tool_result result]) io2)))"

text \<open>
  \<^verbatim>\<open>
  async def query(body: QueryIn, _=Depends(require_key)) -> dict:
      messages = [{"role":"system","content": SYSTEM_PROMPT},
                  {"role":"user","content": body.question}]
      trace = []
      routed_add = _maybe_route_add_claim(body.question)
      if routed_add:
          result = await _dispatch_tool(routed_add)
          return {"ok": True, "answer": "", "trace": [{"assistant": json.dumps(routed_add)},
                                                      {"tool_result": result}]}
      routed = _maybe_route_neighbors(body.question)
      if routed:
          result = await _dispatch_tool(routed)
          trace += [{"assistant": json.dumps(routed)}, {"tool_result": result}]
          messages += [{"role":"assistant","content": json.dumps(routed)},
                       {"role":"tool","content": json.dumps(result)}]
          assistant_text = await _call_llm(messages)
          trace.append({"assistant": assistant_text})
          obj = _extract_json(assistant_text)
          if "final" in obj:
              return {"ok": True, "answer": obj["final"].get("answer",""), "trace": trace}
          return {"ok": True, "answer": "", "trace": trace, "data": result}
      for _ in range(max(1, body.max_steps)): ...
  \<close>
  The API-key dependency is outside this development.
\<close>

definition query :: "'w env \<Rightarrow> lib \<Rightarrow> query_in \<Rightarrow> 'w io \<Rightarrow> (error + query_out) \<times> 'w io" where
  "query E L body io =
     (let messages = [\<lparr>role = ''system'', content = SYSTEM_PROMPT L\<rparr>,
                      \<lparr>role = ''user'', content = question body\<rparr>]
      in case maybe_route_add_claim L (question body) of
           Some routed_add \<Rightarrow>
             (case dispatch_tool E routed_add io of
                (Inl e, io1) \<Rightarrow> (Inl e, io1)
              | (Inr result, io1) \<Rightarrow>
                  (Inr \<lparr>ok = True, answer = JStr [],
                        trace = [Assistant (json_dumps L (JObj routed_add)), Tool_result result],
                        data = None\<rparr>, io1))
         | None \<Rightarrow>
             (case maybe_route_neighbors L (question body) of
                Some routed \<Rightarrow>
                  (case dispatch_tool E routed io of
                     (Inl e, io1) \<Rightarrow> (Inl e, io1)
                   | (Inr result, io1) \<Rightarrow>
                       (let trace1 = [Assistant (json_dumps L (JObj routed)), Tool_result result];
                            messages1 = messages @
                              [\<lparr>role = ''assistant'', content = json_dumps L (JObj routed)\<rparr>,
                               \<lparr>role = ''tool'', content = json_dumps L result\<rparr>]
                        in case call_llm E messages1 io1 of
                             (Inl e, io2) \<Rightarrow> (Inl e, io2)
                           | (Inr assistant_text, io2) \<Rightarrow>
                               (let trace2 = trace1 @ [Assistant assistant_text];
                                    obj = extract_json L assistant_text
                                in if ''final'' \<in> fst ` set obj
                                   then (case final_answer obj of
                                           Inl e \<Rightarrow> (Inl e, io2)
                                         | Inr a \<Rightarrow>
                                             (Inr \<lparr>ok = True, answer = a, trace = trace2,
                                                   data = None\<rparr>, io2))
                                   else (Inr \<lparr>ok = True, answer = JStr [], trace = trace2,
                                              data = Some result\<rparr>, io2))))
              | None \<Rightarrow> agent_loop (nat (max 1 (max_steps body))) E L messages [] io))"

section \<open>What the theorems speak about\<close>

text \<open>The number of model calls in a log of external calls.\<close>

definition llm_calls :: "call list \<Rightarrow> nat" where
  "llm_calls cs = length (filter (\<lambda>c. case c of CallLLM m \<Rightarrow> True | KgPost p b \<Rightarrow> False) cs)"


text \<open>
  Concrete surroundings for running the definitions: a model that gives the same
  reply at every call and a KG-API that answers every request with an empty record
  list; two replies of the model as JSON text (the double quote is \<open>CHR 0x22\<close>), a
  \<open>json.loads\<close> that decodes these two and the empty object, and a library in which
  no fast-path matcher fires and \<open>json.dumps\<close>, whose output only reaches the
  model, is a stand-in.
\<close>

definition const_env :: "string \<Rightarrow> unit env" where
  "const_env reply =
     \<lparr>generate = (\<lambda>messages w. (Inr reply, w)),
      post = (\<lambda>path body w. (Inr (JObj [(''records'', JArr [])]), w))\<rparr>"

definition quoted :: "string \<Rightarrow> string" where
  "quoted s = CHR 0x22 # s @ [CHR 0x22]"

definition delete_reply :: string where
  "delete_reply = ''{'' @ quoted ''tool'' @ '':'' @ quoted ''cypher'' @ '','' @ quoted ''args'' @
     '':{'' @ quoted ''query'' @ '':'' @ quoted ''MATCH (n) DETACH DELETE n'' @ ''}}''"

definition delete_request :: dict where
  "delete_request =
     [(''tool'', JStr ''cypher''), (''args'', JObj [(''query'', JStr ''MATCH (n) DETACH DELETE n'')])]"

definition neighbors_reply :: string where
  "neighbors_reply = ''{'' @ quoted ''tool'' @ '':'' @ quoted ''neighbors'' @ '','' @ quoted ''args'' @
     '':{'' @ quoted ''id'' @ '':'' @ quoted ''Run:demo'' @ ''}}''"

definition neighbors_request :: dict where
  "neighbors_request = [(''tool'', JStr ''neighbors''), (''args'', JObj [(''id'', JStr ''Run:demo'')])]"

definition demo_loads :: "string \<Rightarrow> dict option" where
  "demo_loads s =
     (if s = delete_reply then Some delete_request
      else if s = neighbors_reply then Some neighbors_request
      else if s = ''{}'' then Some []
      else None)"

definition demo_lib :: lib where
  "demo_lib =
     \<lparr>json_loads = demo_loads, json_dumps = (\<lambda>j. ''{}''),
      SYSTEM_PROMPT = ''You are a tool-using assistant.'',
      maybe_route_add_claim = (\<lambda>q. None), maybe_route_neighbors = (\<lambda>q. None)\<rparr>"

text \<open>
  Two proposals: the end-to-end example of the specification, and a literal claim
  with no evidence and no model confidence.
\<close>

definition demo_claim :: ClaimIn where
  "demo_claim =
     \<lparr>subject_id = ''Run:demo'', predicate = ''USES'', object_kind = ''entity'',
      object_value = ''Model:v2'', model_conf = Some 0.9, human_conf = None,
      context_hash = None,
      evidence = [\<lparr>uri_or_blob_ref = ''log://Run:demo'', snippet = None, hash = None,
                   source_type = ''first_party_log'', quality_score = Some 0.95,
                   timestamp = None\<rparr>],
      provenance = None\<rparr>"

definition bare_claim :: ClaimIn where
  "bare_claim =
     \<lparr>subject_id = ''Run:demo'', predicate = ''NOTE'', object_kind = ''literal'',
      object_value = ''some text'', model_conf = None, human_conf = None,
      context_hash = None, evidence = [], provenance = None\<rparr>"

text \<open>
  The claim node the ledger creates for the example proposal with uuid \<open>c1\<close>; a
  store in which the edge \<open>Run:demo -USES-> Model:v1\<close> exists, reached by an approved
  proposal; and a KG-API whose answer to the conflict query, as \<open>_kg_post\<close> returns
  or raises it, is a given value, in front of the ledger above.
\<close>

definition demo_node :: "string \<Rightarrow> Claim" where
  "demo_node v =
     \<lparr>subject_id = ''Run:demo'', predicate = ''USES'', object_kind = ''entity'',
      object_value = ''Model:v2'', model_conf = Some 0.9, human_conf = None,
      context_hash = None,
      evidence = [\<lparr>uri_or_blob_ref = ''log://Run:demo'', snippet = None, hash = None,
                   source_type = ''first_party_log'', quality_score = Some 0.95,
                   timestamp = None\<rparr>],
      provenance = None, status = Some v, claim_id = ''c1''\<rparr>"

definition v1_store :: store where
  "v1_store =
     snd (kg_propose_claim ''c0'' (with_status (demo_claim\<lparr>object_value := ''Model:v1''\<rparr>) ''approved'')
            empty_store)"

definition kg_answering :: "error + json \<Rightarrow> string \<Rightarrow> store kg_api" where
  "kg_answering resp u = (kg_live u)\<lparr>cypher_conflicts := (\<lambda>sid pred st. (resp, st))\<rparr>"

text \<open>
  A claim backs an edge when it has the edge's subject, predicate and object and its
  status is one of the given ones; \<open>edges_backed\<close> says that every edge of a list
  is backed by a claim of a list. \<open>shape\<close> says what one request may do to the
  store: append claims, write one status on some claims (\<open>rejected\<close> only for a
  rejection), and append edges that are backed by approved claims.
\<close>

definition backs :: "string list \<Rightarrow> Claim \<Rightarrow> string \<times> string \<times> string \<Rightarrow> bool" where
  "backs vs c e =
     (case e of (s, p, obj) \<Rightarrow>
        subject_id c = s \<and> predicate c = p \<and> object_value c = obj \<and> status c \<in> Some ` set vs)"

definition edges_backed :: "string list \<Rightarrow> Claim list \<Rightarrow> (string \<times> string \<times> string) list \<Rightarrow> bool" where
  "edges_backed vs cs es = list_all (\<lambda>e. list_ex (\<lambda>c. backs vs c e) cs) es"

definition shape :: "request \<Rightarrow> store \<Rightarrow> store \<Rightarrow> bool" where
  "shape r st st' \<longleftrightarrow>
     (\<exists>hit v extra new.
        (v = ''approved'' \<or> is_reject r \<and> v = ''rejected'') \<and>
        claims st' = map (\<lambda>c. if hit c then c\<lparr>status := Some v\<rparr> else c) (claims st @ extra) \<and>
        edges st' = edges st @ new \<and>
        edges_backed [''approved''] (claims st') new)"

section \<open>Properties of the cypher filter and the tool dispatch\<close>

lemma call_llm_eq:
  "generate E messages w = (r, w') \<Longrightarrow>
   call_llm E messages (cs, w) = (r, (cs @ [CallLLM messages], w'))"
  by (simp add: call_llm_def)

lemma cypher_guard_unsafe:
  assumes "map_of d ''query'' = Some (JStr q)" and "b \<in> set bad" and "sublist b q"
  shows "cypher_guard (JObj d) = Inl (HTTPException 400)"
  using assms by (auto simp: cypher_guard_def cypher_safe_def list_ex_iff)

lemma dispatch_unsafe:
  assumes "map_of req ''tool'' = Some (JStr ''cypher'')"
    and "map_of req ''args'' = Some (JObj d)"
    and "map_of d ''query'' = Some (JStr q)"
    and "b \<in> set bad" and "sublist b q"
  shows "dispatch_tool E req io = (Inl (HTTPException 400), io)"
  using assms(1,2) cypher_guard_unsafe[OF assms(3-5)] by (simp add: dispatch_tool_def)

lemma dispatch_safe:
  assumes "map_of req ''tool'' = Some (JStr ''cypher'')"
    and "map_of req ''args'' = Some (JObj d)"
    and "map_of d ''query'' = Some (JStr q)"
    and "cypher_safe q"
  shows "dispatch_tool E req io = kg_post E ''/cypher'' (JObj d) io"
  using assms by (simp add: dispatch_tool_def cypher_guard_def)

lemmas fixture_defs = const_env_def quoted_def delete_reply_def delete_request_def
  neighbors_reply_def neighbors_request_def demo_loads_def demo_lib_def

text \<open>
  C7. A \<open>cypher\<close> tool call whose query text contains one of the denylisted tokens,
  \<open>DELETE \<close> among them, is rejected with \<open>HTTPException(400)\<close> and nothing is sent
  to KG-API: the log of external calls and the outside world are as before the
  dispatch. In the agent loop, a model reply that decodes to such a call ends the
  \<open>/query\<close> request with that error after the one model call.
\<close>

theorem unsafe_cypher_rejected:
  assumes "map_of req ''tool'' = Some (JStr ''cypher'')"
    and "map_of req ''args'' = Some (JObj d)"
    and "map_of d ''query'' = Some (JStr q)"
    and "b \<in> set bad" and "sublist b q"
  shows "''DELETE '' \<in> set bad \<and>
         dispatch_tool E req (cs, w) = (Inl (HTTPException 400), (cs, w)) \<and>
         (generate E messages w0 = (Inr reply, w) \<and> extract_json L reply = req \<and>
          ''final'' \<notin> fst ` set req \<longrightarrow>
            agent_loop (Suc n) E L messages tr (cs0, w0) =
              (Inl (HTTPException 400), (cs0 @ [CallLLM messages], w)))"
proof -
  have d: "dispatch_tool E req io = (Inl (HTTPException 400), io)" for io
    using dispatch_unsafe[OF assms] .
  have "agent_loop (Suc n) E L messages tr (cs0, w0) =
          (Inl (HTTPException 400), (cs0 @ [CallLLM messages], w))"
    if "generate E messages w0 = (Inr reply, w)" and "extract_json L reply = req"
      and "''final'' \<notin> fst ` set req"
    using that by (simp add: call_llm_eq Let_def d)
  then show ?thesis
    using d by (simp add: bad_def)
qed

theorem unsafe_cypher_rejected_witness:
  "map_of delete_request ''tool'' = Some (JStr ''cypher'') \<and>
   sublist ''DELETE '' ''MATCH (n) DETACH DELETE n'' \<and>
   extract_json demo_lib delete_reply = delete_request \<and>
   dispatch_tool (const_env delete_reply) delete_request ([], ()) = (Inl (HTTPException 400), ([], ())) \<and>
   agent_loop (Suc 3) (const_env delete_reply) demo_lib [] [] ([], ()) =
     (Inl (HTTPException 400), ([CallLLM []], ()))"
proof -
  have x: "extract_json demo_lib delete_reply = delete_request"
    by (simp add: extract_json_def unwrap_def sub_tool_result_def sub_end_tool_result_def
        search_braces_def isspace_def fixture_defs)
  have s: "sublist ''DELETE '' ''MATCH (n) DETACH DELETE n''"
    by (simp add: sublist_code(3))
  have b: "''DELETE '' \<in> set bad"
    by (simp add: bad_def)
  have "map_of delete_request ''tool'' = Some (JStr ''cypher'')"
    and "map_of delete_request ''args'' = Some (JObj [(''query'', JStr ''MATCH (n) DETACH DELETE n'')])"
    and "map_of [(''query'', JStr ''MATCH (n) DETACH DELETE n'')] ''query'' =
          Some (JStr ''MATCH (n) DETACH DELETE n'')"
    by (simp_all add: delete_request_def)
  from unsafe_cypher_rejected[OF this b s, of "const_env delete_reply" "[]" "()" "[]" "()"
      delete_reply demo_lib 3 "[]" "[]"] x s
  show ?thesis
    by (simp add: const_env_def delete_request_def)
qed

text \<open>
  C10. \<open>_cypher_safe\<close> is true exactly when none of the six substrings occurs in
  the query, compared character by character. A \<open>cypher\<close> tool call whose query
  passes is sent to KG-API's \<open>/cypher\<close> with its arguments; a lower-case
  \<open>delete\<close> and a \<open>CREATE\<close> with no space after it pass.
\<close>

theorem cypher_safe_exact:
  "(cypher_safe q \<longleftrightarrow>
      \<not> (sublist ''name:'' q \<or> sublist ''HAS_KNOWLEDGE'' q \<or> sublist ''CREATE '' q \<or>
         sublist ''MERGE '' q \<or> sublist ''DELETE '' q \<or> sublist ''SET '' q)) \<and>
   (cypher_safe q \<and> map_of req ''tool'' = Some (JStr ''cypher'') \<and>
    map_of req ''args'' = Some (JObj d) \<and> map_of d ''query'' = Some (JStr q) \<longrightarrow>
      dispatch_tool E req (cs, w) =
        (fst (post E ''/cypher'' (JObj d) w),
         (cs @ [KgPost ''/cypher'' (JObj d)], snd (post E ''/cypher'' (JObj d) w)))) \<and>
   cypher_safe ''MATCH (n) delete (n)'' \<and> cypher_safe ''CREATE(n:Entity)''"
proof -
  have "cypher_safe ''MATCH (n) delete (n)''" and "cypher_safe ''CREATE(n:Entity)''"
    by (simp_all add: cypher_safe_def bad_def sublist_code(3))
  moreover have "cypher_safe q \<longleftrightarrow>
      \<not> (sublist ''name:'' q \<or> sublist ''HAS_KNOWLEDGE'' q \<or> sublist ''CREATE '' q \<or>
         sublist ''MERGE '' q \<or> sublist ''DELETE '' q \<or> sublist ''SET '' q)"
    by (simp add: cypher_safe_def bad_def)
  moreover have "dispatch_tool E req (cs, w) =
        (fst (post E ''/cypher'' (JObj d) w),
         (cs @ [KgPost ''/cypher'' (JObj d)], snd (post E ''/cypher'' (JObj d) w)))"
    if "cypher_safe q" "map_of req ''tool'' = Some (JStr ''cypher'')"
       "map_of req ''args'' = Some (JObj d)" "map_of d ''query'' = Some (JStr q)"
    by (simp add: dispatch_safe[OF that(2,3,4,1)] kg_post_def split_beta)
  ultimately show ?thesis by blast
qed

theorem cypher_safe_exact_witness:
  "cypher_safe ''MATCH (n) delete (n)'' \<and>
   dispatch_tool (const_env [])
     [(''tool'', JStr ''cypher''), (''args'', JObj [(''query'', JStr ''MATCH (n) delete (n)'')])]
     ([], ()) =
     (Inr (JObj [(''records'', JArr [])]),
      ([KgPost ''/cypher'' (JObj [(''query'', JStr ''MATCH (n) delete (n)'')])], ()))"
proof -
  have c: "cypher_safe ''MATCH (n) delete (n)''"
    by (simp add: cypher_safe_def bad_def sublist_code(3))
  from cypher_safe_exact[of "''MATCH (n) delete (n)''"
      "[(''tool'', JStr ''cypher''), (''args'', JObj [(''query'', JStr ''MATCH (n) delete (n)'')])]"
      "[(''query'', JStr ''MATCH (n) delete (n)'')]" "const_env []" "[]" "()"] c
  show ?thesis
    by (simp add: const_env_def)
qed

section \<open>Properties of the query loop\<close>




lemma query_unrouted:
  assumes "maybe_route_add_claim L (question body) = None"
    and "maybe_route_neighbors L (question body) = None"
  shows "query E L body io =
     agent_loop (nat (max 1 (max_steps body))) E L
       [\<lparr>role = ''system'', content = SYSTEM_PROMPT L\<rparr>,
        \<lparr>role = ''user'', content = question body\<rparr>] [] io"
  using assms by (simp add: query_def)



lemma dispatch_llm_calls:
  "dispatch_tool E req (cs, w) = (r, (cs', w')) \<Longrightarrow> llm_calls cs' = llm_calls cs"
  by (auto simp: dispatch_tool_def kg_post_def llm_calls_def Let_def split: if_splits sum.splits prod.splits)

lemma call_llm_calls:
  "call_llm E m (cs, w) = (r, (cs', w')) \<Longrightarrow> llm_calls cs' = Suc (llm_calls cs)"
  by (auto simp: call_llm_def llm_calls_def split: prod.splits)

lemma agent_loop_calls:
  "agent_loop n E L messages tr (cs, w) = (r, (cs', w')) \<Longrightarrow> llm_calls cs' \<le> llm_calls cs + n"
proof (induction n arbitrary: messages tr cs w)
  case 0
  then show ?case by simp
next
  case (Suc n)
  obtain r1 cs1 w1 where c: "call_llm E messages (cs, w) = (r1, (cs1, w1))"
    by (metis prod.exhaust)
  have l1: "llm_calls cs1 = Suc (llm_calls cs)" using call_llm_calls[OF c] .
  show ?case
  proof (cases r1)
    case (Inl e)
    with Suc.prems c l1 show ?thesis by simp
  next
    case (Inr reply)
    show ?thesis
    proof (cases "''final'' \<in> fst ` set (extract_json L reply)")
      case True
      with Suc.prems c Inr l1 show ?thesis
        by (auto simp: Let_def split: sum.splits)
    next
      case False
      obtain r2 cs2 w2 where d: "dispatch_tool E (extract_json L reply) (cs1, w1) = (r2, (cs2, w2))"
        by (metis prod.exhaust)
      have l2: "llm_calls cs2 = llm_calls cs1" using dispatch_llm_calls[OF d] .
      show ?thesis
      proof (cases r2)
        case (Inl e)
        with Suc.prems c Inr False d l1 l2 show ?thesis by (simp add: Let_def)
      next
        case (Inr result)
        with Suc.prems c \<open>r1 = Inr reply\<close> False d
        have "agent_loop n E L
                (messages @ [\<lparr>role = ''assistant'', content = reply\<rparr>,
                             \<lparr>role = ''tool'', content = json_dumps L result\<rparr>])
                ((tr @ [Assistant reply]) @ [Tool_result result]) (cs2, w2) = (r, (cs', w'))"
          by (simp add: Let_def)
        from Suc.IH[OF this] l1 l2 show ?thesis by simp
      qed
    qed
  qed
qed

lemma query_calls:
  "query E L body (cs, w) = (r, (cs', w')) \<Longrightarrow> llm_calls cs' \<le> llm_calls cs + nat (max 1 (max_steps body))"
proof (cases "maybe_route_add_claim L (question body)")
  case (Some routed_add)
  assume q: "query E L body (cs, w) = (r, (cs', w'))"
  obtain r1 cs1 w1 where d: "dispatch_tool E routed_add (cs, w) = (r1, (cs1, w1))"
    by (metis prod.exhaust)
  from q Some d have "cs' = cs1"
    by (auto simp: query_def split: sum.splits)
  with dispatch_llm_calls[OF d] show ?thesis by simp
next
  case None
  assume q: "query E L body (cs, w) = (r, (cs', w'))"
  show ?thesis
  proof (cases "maybe_route_neighbors L (question body)")
    case n: None
    from q None n agent_loop_calls show ?thesis
      by (simp add: query_unrouted)
  next
    case (Some routed)
    obtain r1 cs1 w1 where d: "dispatch_tool E routed (cs, w) = (r1, (cs1, w1))"
      by (metis prod.exhaust)
    note l1 = dispatch_llm_calls[OF d]
    show ?thesis
    proof (cases r1)
      case (Inl e)
      with q None Some d l1 show ?thesis by (simp add: query_def)
    next
      case (Inr result)
      obtain r2 cs2 w2 where c: "call_llm E
         ([\<lparr>role = ''system'', content = SYSTEM_PROMPT L\<rparr>, \<lparr>role = ''user'', content = question body\<rparr>] @
          [\<lparr>role = ''assistant'', content = json_dumps L (JObj routed)\<rparr>,
           \<lparr>role = ''tool'', content = json_dumps L result\<rparr>]) (cs1, w1) = (r2, (cs2, w2))"
        by (metis prod.exhaust)
      note l2 = call_llm_calls[OF c]
      from q None Some d Inr c have "cs' = cs2"
        by (auto simp: query_def Let_def split: sum.splits if_splits)
      with l1 l2 show ?thesis by simp
    qed
  qed
qed

lemma agent_loop_sentinel:
  assumes H: "\<forall>messages w. \<exists>reply w'. generate E messages w = (Inr reply, w') \<and>
                ''final'' \<notin> fst ` set (extract_json L reply) \<and>
                (\<forall>cs. \<exists>result io. dispatch_tool E (extract_json L reply) (cs, w') = (Inr result, io))"
  shows "\<exists>out cs' w'. agent_loop n E L messages tr (cs, w) = (Inr out, (cs', w')) \<and>
           ok out \<and> answer out = JStr ''(stopped: max_steps)'' \<and>
           length (trace out) = length tr + 2 * n \<and> llm_calls cs' = llm_calls cs + n"
proof (induction n arbitrary: messages tr cs w)
  case 0
  then show ?case by simp
next
  case (Suc n)
  from H obtain reply w1 where g: "generate E messages w = (Inr reply, w1)"
    and nf: "''final'' \<notin> fst ` set (extract_json L reply)"
    and dd: "\<forall>cs. \<exists>result io. dispatch_tool E (extract_json L reply) (cs, w1) = (Inr result, io)"
    by blast
  from dd obtain result cs2 w2 where
    d: "dispatch_tool E (extract_json L reply) (cs @ [CallLLM messages], w1) = (Inr result, (cs2, w2))"
    by (metis prod.exhaust)
  have l2: "llm_calls cs2 = Suc (llm_calls cs)"
    using dispatch_llm_calls[OF d] by (simp add: llm_calls_def)
  from Suc.IH[of "messages @ [\<lparr>role = ''assistant'', content = reply\<rparr>,
                             \<lparr>role = ''tool'', content = json_dumps L result\<rparr>]"
                 "(tr @ [Assistant reply]) @ [Tool_result result]" cs2 w2]
  obtain out cs' w' where
    "agent_loop n E L (messages @ [\<lparr>role = ''assistant'', content = reply\<rparr>,
                             \<lparr>role = ''tool'', content = json_dumps L result\<rparr>])
        ((tr @ [Assistant reply]) @ [Tool_result result]) (cs2, w2) = (Inr out, (cs', w'))"
    "ok out" "answer out = JStr ''(stopped: max_steps)''"
    "length (trace out) = length ((tr @ [Assistant reply]) @ [Tool_result result]) + 2 * n"
    "llm_calls cs' = llm_calls cs2 + n"
    by blast
  with g nf d l2 show ?case
    by (simp add: call_llm_eq Let_def)
qed

text \<open>
  C9 (as the code has it). Every \<open>/query\<close> request makes at most
  \<open>max(1, max_steps)\<close> model calls. When neither fast-path matcher fires and
  every model call returns a reply that decodes to an object without a \<open>final\<close>
  key whose tool call is dispatched without an exception, the request makes exactly
  \<open>max(1, max_steps)\<close> model calls (one when \<open>max_steps = 1\<close>) and returns, as an
  ordinary result, the answer \<open>(stopped: max_steps)\<close> with a trace of one assistant
  entry and one tool result per iteration.
\<close>

theorem step_budget_sentinel:
  "llm_calls (fst (snd (query E L body (cs, w)))) \<le> llm_calls cs + nat (max 1 (max_steps body)) \<and>
   (maybe_route_add_claim L (question body) = None \<and>
    maybe_route_neighbors L (question body) = None \<and>
    (\<forall>messages w. \<exists>reply w'. generate E messages w = (Inr reply, w') \<and>
        ''final'' \<notin> fst ` set (extract_json L reply) \<and>
        (\<forall>cs. \<exists>result io. dispatch_tool E (extract_json L reply) (cs, w') = (Inr result, io))) \<longrightarrow>
      (\<exists>out cs' w'. query E L body (cs, w) = (Inr out, (cs', w')) \<and>
         ok out \<and> answer out = JStr ''(stopped: max_steps)'' \<and>
         length (trace out) = 2 * nat (max 1 (max_steps body)) \<and>
         llm_calls cs' = llm_calls cs + nat (max 1 (max_steps body))))"
proof -
  obtain r cs' w' where q: "query E L body (cs, w) = (r, (cs', w'))"
    by (metis prod.exhaust)
  have "llm_calls (fst (snd (query E L body (cs, w)))) \<le> llm_calls cs + nat (max 1 (max_steps body))"
    using query_calls[OF q] q by simp
  moreover have "\<exists>out cs' w'. query E L body (cs, w) = (Inr out, (cs', w')) \<and>
         ok out \<and> answer out = JStr ''(stopped: max_steps)'' \<and>
         length (trace out) = 2 * nat (max 1 (max_steps body)) \<and>
         llm_calls cs' = llm_calls cs + nat (max 1 (max_steps body))"
    if "maybe_route_add_claim L (question body) = None"
      and "maybe_route_neighbors L (question body) = None"
      and "\<forall>messages w. \<exists>reply w'. generate E messages w = (Inr reply, w') \<and>
        ''final'' \<notin> fst ` set (extract_json L reply) \<and>
        (\<forall>cs. \<exists>result io. dispatch_tool E (extract_json L reply) (cs, w') = (Inr result, io))"
    using agent_loop_sentinel[OF that(3), of "nat (max 1 (max_steps body))" _ "[]" cs w]
    by (simp add: query_unrouted[OF that(1,2)])
  ultimately show ?thesis by blast
qed

theorem step_budget_sentinel_witness:
  "maybe_route_add_claim demo_lib ''hello'' = None \<and>
   maybe_route_neighbors demo_lib ''hello'' = None \<and>
   extract_json demo_lib neighbors_reply = neighbors_request \<and>
   query (const_env neighbors_reply) demo_lib \<lparr>question = ''hello'', max_steps = 1\<rparr> ([], ()) =
     (Inr \<lparr>ok = True, answer = JStr ''(stopped: max_steps)'',
           trace = [Assistant neighbors_reply, Tool_result (JObj [(''records'', JArr [])])],
           data = None\<rparr>,
      ([CallLLM [\<lparr>role = ''system'', content = ''You are a tool-using assistant.''\<rparr>,
                 \<lparr>role = ''user'', content = ''hello''\<rparr>],
        KgPost ''/neighbors'' (JObj [(''id'', JStr ''Run:demo'')])], ()))"
proof -
  have x: "extract_json demo_lib neighbors_reply = neighbors_request"
    by (simp add: extract_json_def unwrap_def sub_tool_result_def sub_end_tool_result_def
        search_braces_def isspace_def fixture_defs)
  have d: "dispatch_tool (const_env neighbors_reply) neighbors_request (cs, w) =
             (Inr (JObj [(''records'', JArr [])]),
              (cs @ [KgPost ''/neighbors'' (JObj [(''id'', JStr ''Run:demo'')])], w))" for cs w
    by (simp add: dispatch_tool_def kg_post_def const_env_def neighbors_request_def)
  have g: "generate (const_env neighbors_reply) messages w = (Inr neighbors_reply, w)" for messages w
    by (simp add: const_env_def)
  have nf: "''final'' \<notin> fst ` set neighbors_request"
    by (simp add: neighbors_request_def)
  have r: "maybe_route_add_claim demo_lib ''hello'' = None"
    "maybe_route_neighbors demo_lib ''hello'' = None"
    by (simp_all add: demo_lib_def)
  have H: "\<forall>messages w. \<exists>reply w'. generate (const_env neighbors_reply) messages w = (Inr reply, w') \<and>
        ''final'' \<notin> fst ` set (extract_json demo_lib reply) \<and>
        (\<forall>cs. \<exists>result io. dispatch_tool (const_env neighbors_reply) (extract_json demo_lib reply) (cs, w') =
             (Inr result, io))"
    using g x nf d by auto
  from step_budget_sentinel[of "const_env neighbors_reply" demo_lib
      "\<lparr>question = ''hello'', max_steps = 1\<rparr>" "[]" "()"] r H
  have "\<exists>out cs' w'. query (const_env neighbors_reply) demo_lib
            \<lparr>question = ''hello'', max_steps = 1\<rparr> ([], ()) = (Inr out, (cs', w')) \<and>
          answer out = JStr ''(stopped: max_steps)''"
    by auto
  moreover have "query (const_env neighbors_reply) demo_lib \<lparr>question = ''hello'', max_steps = 1\<rparr> ([], ()) =
     (Inr \<lparr>ok = True, answer = JStr ''(stopped: max_steps)'',
           trace = [Assistant neighbors_reply, Tool_result (JObj [(''records'', JArr [])])],
           data = None\<rparr>,
      ([CallLLM [\<lparr>role = ''system'', content = ''You are a tool-using assistant.''\<rparr>,
                 \<lparr>role = ''user'', content = ''hello''\<rparr>],
        KgPost ''/neighbors'' (JObj [(''id'', JStr ''Run:demo'')])], ()))"
  proof -
    have "query (const_env neighbors_reply) demo_lib \<lparr>question = ''hello'', max_steps = 1\<rparr> io =
        agent_loop (Suc 0) (const_env neighbors_reply) demo_lib
          [\<lparr>role = ''system'', content = SYSTEM_PROMPT demo_lib\<rparr>,
           \<lparr>role = ''user'', content = ''hello''\<rparr>] [] io" for io
      using query_unrouted[of demo_lib "\<lparr>question = ''hello'', max_steps = 1\<rparr>"
          "const_env neighbors_reply" io] r
      by simp
    then show ?thesis
      by (simp add: call_llm_eq[OF g] x nf d Let_def) (simp add: demo_lib_def)
  qed
  ultimately show ?thesis
    using r x by simp
qed

text \<open>
  The claim as stated fails: a model whose every reply is a \<open>cypher\<close> call with a
  \<open>DELETE\<close> never returns an object with a \<open>final\<close> key, no fast path fires, and
  the request ends with \<open>HTTPException(400)\<close> after one model call, not with the
  sentinel.
\<close>

theorem step_budget_sentinel_counterexample:
  "maybe_route_add_claim demo_lib ''hello'' = None \<and>
   maybe_route_neighbors demo_lib ''hello'' = None \<and>
   generate (const_env delete_reply) = (\<lambda>messages w. (Inr delete_reply, w)) \<and>
   extract_json demo_lib delete_reply = delete_request \<and>
   ''final'' \<notin> fst ` set delete_request \<and>
   query (const_env delete_reply) demo_lib \<lparr>question = ''hello'', max_steps = 1\<rparr> ([], ()) =
     (Inl (HTTPException 400),
      ([CallLLM [\<lparr>role = ''system'', content = ''You are a tool-using assistant.''\<rparr>,
                 \<lparr>role = ''user'', content = ''hello''\<rparr>]], ()))"
proof -
  have x: "extract_json demo_lib delete_reply = delete_request"
    by (simp add: extract_json_def unwrap_def sub_tool_result_def sub_end_tool_result_def
        search_braces_def isspace_def fixture_defs)
  have g: "generate (const_env delete_reply) messages w = (Inr delete_reply, w)" for messages w
    by (simp add: const_env_def)
  have d: "dispatch_tool (const_env delete_reply) delete_request io = (Inl (HTTPException 400), io)" for io
    by (simp add: dispatch_tool_def cypher_guard_def cypher_safe_def bad_def sublist_code(3)
        delete_request_def)
  have nf: "''final'' \<notin> fst ` set delete_request"
    by (simp add: delete_request_def)
  have r: "maybe_route_add_claim demo_lib ''hello'' = None"
    "maybe_route_neighbors demo_lib ''hello'' = None"
    by (simp_all add: demo_lib_def)
  have "query (const_env delete_reply) demo_lib \<lparr>question = ''hello'', max_steps = 1\<rparr> io =
      agent_loop (Suc 0) (const_env delete_reply) demo_lib
        [\<lparr>role = ''system'', content = SYSTEM_PROMPT demo_lib\<rparr>,
         \<lparr>role = ''user'', content = ''hello''\<rparr>] [] io" for io
    using query_unrouted[of demo_lib "\<lparr>question = ''hello'', max_steps = 1\<rparr>"
        "const_env delete_reply" io] r
    by simp
  then have "query (const_env delete_reply) demo_lib \<lparr>question = ''hello'', max_steps = 1\<rparr> ([], ()) =
     (Inl (HTTPException 400),
      ([CallLLM [\<lparr>role = ''system'', content = ''You are a tool-using assistant.''\<rparr>,
                 \<lparr>role = ''user'', content = ''hello''\<rparr>]], ()))"
    by (simp add: call_llm_eq[OF g] x nf d Let_def) (simp add: demo_lib_def)
  moreover have "generate (const_env delete_reply) = (\<lambda>messages w. (Inr delete_reply, w))"
    by (simp add: const_env_def)
  ultimately show ?thesis
    using r x nf by simp
qed

section \<open>Properties of the trust score\<close>





section \<open>Properties of the policy gate and the conflict detector\<close>



lemma claims_ensure_entity [simp]: "claims (ensure_entity e st) = claims st"
  and driver_ensure_entity [simp]: "driver (ensure_entity e st) = driver st"
  and pg_conn_ensure_entity [simp]: "pg_conn (ensure_entity e st) = pg_conn st"
  and edges_ensure_entity [simp]: "edges (ensure_entity e st) = edges st"
  by (simp_all add: ensure_entity_def)

lemma driver_materialize [simp]: "driver (materialize cid s pred obj st) = driver st"
  by (simp add: materialize_def)






lemmas ledger_defs = kg_propose_claim_def kg_approve_def kg_reject_def materialize_def
  approve_entity_def set_status_def ensure_entity_def empty_store_def run_def
lemmas gate_defs = gw_propose_claim_def kg_live_def via_http_def kg_cypher_conflicts_def
  conflict_objs_def has_conflicts_def conflicts_try_def first_record_def record_objs_def
  py_iter_def trust_score_def or_zero_def with_status_def default_config_def
  AUTO_MERGE_PREDICATES_def FIRST_PARTY_def






lemma set_conflict_objs:
  "set (conflict_objs sid pred st) = {obj. (sid, pred, obj) \<in> set (edges st)}"
  by (auto simp: conflict_objs_def image_iff)

lemma has_conflicts_answer:
  "has_conflicts claim (Inr (JObj [(''records'', JArr [JObj [(''objs'', JArr (map JStr objs))]])])) \<longleftrightarrow>
     object_kind claim = ''entity'' \<and> (\<exists>obj \<in> set objs. obj \<noteq> object_value claim)"
  by (auto simp: has_conflicts_def conflicts_try_def first_record_def record_objs_def py_iter_def
      list_ex_iff)

text \<open>
  C4 (as the code has it). When the ledger answers the conflict query, the detector
  reports a conflict exactly when the object kind is \<open>entity\<close> and some edge from
  the subject whose type is the predicate ends at an object other than the proposed
  one; a \<open>literal\<close> proposal then never conflicts.
\<close>

theorem conflict_iff_other_object:
  assumes "driver st"
  shows "(has_conflicts claim (kg_cypher_conflicts (subject_id claim) (predicate claim) st) \<longleftrightarrow>
            object_kind claim = ''entity'' \<and>
            (\<exists>obj. (subject_id claim, predicate claim, obj) \<in> set (edges st) \<and>
                   obj \<noteq> object_value claim)) \<and>
         (object_kind claim = ''literal'' \<longrightarrow>
            \<not> has_conflicts claim (kg_cypher_conflicts (subject_id claim) (predicate claim) st))"
  using assms
  by (auto simp: kg_cypher_conflicts_def has_conflicts_answer set_conflict_objs)

theorem conflict_iff_other_object_witness:
  "driver v1_store \<and> edges v1_store = [(''Run:demo'', ''USES'', ''Model:v1'')] \<and>
   has_conflicts demo_claim (kg_cypher_conflicts ''Run:demo'' ''USES'' v1_store) \<and>
   \<not> has_conflicts (demo_claim\<lparr>object_kind := ''literal'', object_value := ''some text''\<rparr>)
        (kg_cypher_conflicts ''Run:demo'' ''USES'' v1_store)"
proof -
  have d: "driver v1_store" and e: "edges v1_store = [(''Run:demo'', ''USES'', ''Model:v1'')]"
    by (simp_all add: v1_store_def demo_claim_def with_status_def ledger_defs Let_def)
  from conflict_iff_other_object[OF d, of demo_claim]
    conflict_iff_other_object[OF d, of "demo_claim\<lparr>object_kind := ''literal'', object_value := ''some text''\<rparr>"]
    d e
  show ?thesis
    by (simp add: demo_claim_def)
qed

text \<open>
  The claim as stated fails when the query does not succeed: for a \<open>literal\<close>
  proposal and a graph with no edge at all, the detector reports a conflict once
  \<open>_kg_post\<close> raises.
\<close>

theorem conflict_iff_other_object_counterexample:
  "object_kind bare_claim = ''literal'' \<and>
   edges (empty_store\<lparr>driver := False\<rparr>) = [] \<and>
   kg_cypher_conflicts (subject_id bare_claim) (predicate bare_claim) (empty_store\<lparr>driver := False\<rparr>) =
     Inl (HTTPException 500) \<and>
   has_conflicts bare_claim
     (kg_cypher_conflicts (subject_id bare_claim) (predicate bare_claim) (empty_store\<lparr>driver := False\<rparr>)) \<and>
   has_conflicts bare_claim (Inl PyError)"
  by (simp add: bare_claim_def empty_store_def kg_cypher_conflicts_def has_conflicts_def
      conflicts_try_def)

text \<open>
  C3 (as the code has it). Whenever the \<open>try\<close> block of the detector raises, which it
  does whenever \<open>_kg_post\<close> raises and whenever reading the objects out of the answer
  raises, the detector returns true, and the gate hands the proposal to the ledger
  with status \<open>pending\<close>, answers with the review decision and sends no approval.
\<close>

theorem conflict_query_fails_closed:
  assumes "cypher_conflicts K (subject_id claim) (predicate claim) w = (resp, w1)"
    and "conflicts_try claim resp = Inl e"
  shows "conflicts_try claim (Inl e') = Inl e' \<and>
         has_conflicts claim resp \<and>
         gw_propose_claim cfg K claim w =
           (case post_propose_claim K (with_status claim ''pending'') w1 of
              (Inl e2, w2) \<Rightarrow> (Inl e2, w2)
            | (Inr c, w2) \<Rightarrow>
                (Inr \<lparr>decision = ''T2-review'', trust = trust_score claim,
                      min_quality_ok =
                        (evidence claim \<noteq> [] \<and>
                         list_all (\<lambda>e. MIN_QUAL cfg \<le> or_zero (quality_score e)) (evidence claim)),
                      no_conflict = False, kg = c\<rparr>, w2))"
proof -
  have h: "has_conflicts claim resp"
    using assms(2) by (simp add: has_conflicts_def)
  show ?thesis
    using assms(1) h
    by (auto simp: conflicts_try_def gw_propose_claim_def Let_def split: prod.splits sum.splits)
qed

theorem conflict_query_fails_closed_witness:
  "conflicts_try demo_claim (Inl (HTTPException 500)) = Inl (HTTPException 500) \<and>
   conflicts_try demo_claim (Inr (JObj [(''records'', JArr [])])) = Inl PyError \<and>
   fst (gw_propose_claim default_config (kg_answering (Inr (JObj [(''records'', JArr [])])) ''c1'')
          demo_claim empty_store) =
     Inr \<lparr>decision = ''T2-review'', trust = 0.985, min_quality_ok = True, no_conflict = False,
          kg = demo_node ''pending''\<rparr> \<and>
   claims (snd (gw_propose_claim default_config (kg_answering (Inr (JObj [(''records'', JArr [])])) ''c1'')
          demo_claim empty_store)) = [demo_node ''pending''] \<and>
   edges (snd (gw_propose_claim default_config (kg_answering (Inr (JObj [(''records'', JArr [])])) ''c1'')
          demo_claim empty_store)) = []"
proof -
  have a: "cypher_conflicts (kg_answering (Inr (JObj [(''records'', JArr [])])) ''c1'')
             (subject_id demo_claim) (predicate demo_claim) empty_store =
           (Inr (JObj [(''records'', JArr [])]), empty_store)"
    by (simp add: kg_answering_def kg_live_def)
  have b: "conflicts_try demo_claim (Inr (JObj [(''records'', JArr [])])) = Inl PyError"
    by (simp add: conflicts_try_def first_record_def)
  have p: "post_propose_claim (kg_answering (Inr (JObj [(''records'', JArr [])])) ''c1'')
             (with_status demo_claim ''pending'') empty_store =
           (Inr (demo_node ''pending''),
            snd (kg_propose_claim ''c1'' (with_status demo_claim ''pending'') empty_store))"
    by (simp add: kg_answering_def kg_live_def via_http_def demo_claim_def demo_node_def
        with_status_def ledger_defs Let_def)
  have q: "claims (snd (kg_propose_claim ''c1'' (with_status demo_claim ''pending'') empty_store)) =
             [demo_node ''pending'']"
    "edges (snd (kg_propose_claim ''c1'' (with_status demo_claim ''pending'') empty_store)) = []"
    by (simp_all add: demo_claim_def demo_node_def with_status_def ledger_defs Let_def)
  have t: "trust_score demo_claim = 0.985" 
    "evidence demo_claim \<noteq> [] \<and>
       list_all (\<lambda>e. MIN_QUAL default_config \<le> or_zero (quality_score e)) (evidence demo_claim)"
    by (simp_all add: demo_claim_def trust_score_def or_zero_def FIRST_PARTY_def default_config_def)
  from conflict_query_fails_closed[OF a b, of "HTTPException 500" default_config] p q t b
  show ?thesis
    by simp
qed

text \<open>
  The claim as stated fails for a malformed answer that raises nothing: an answer
  \<open>{}\<close>, with no \<open>records\<close>, is read as an empty list of objects, so the detector
  reports no conflict and the gate auto-merges \<open>Model:v2\<close> although the edge to
  \<open>Model:v1\<close> exists.
\<close>

theorem conflict_query_fails_closed_counterexample:
  "\<not> has_conflicts demo_claim (Inr (JObj [])) \<and>
   fst (gw_propose_claim default_config (kg_answering (Inr (JObj [])) ''c1'') demo_claim v1_store) =
     Inr \<lparr>decision = ''T1-auto-merge'', trust = 0.985, min_quality_ok = True, no_conflict = True,
          kg = demo_node ''approved''\<rparr> \<and>
   edges v1_store = [(''Run:demo'', ''USES'', ''Model:v1'')] \<and>
   map (\<lambda>c. (claim_id c, object_value c, status c))
     (claims (snd (gw_propose_claim default_config (kg_answering (Inr (JObj [])) ''c1'') demo_claim
                     v1_store))) =
     [(''c0'', ''Model:v1'', Some ''approved''), (''c1'', ''Model:v2'', Some ''approved'')]"
  by (simp add: kg_answering_def v1_store_def demo_claim_def demo_node_def gate_defs ledger_defs Let_def)


section \<open>Properties of the claim ledger\<close>

lemma edges_backed_iff:
  "edges_backed vs cs es \<longleftrightarrow> (\<forall>e \<in> set es. \<exists>c \<in> set cs. backs vs c e)"
  by (simp add: edges_backed_def list_all_iff list_ex_iff)

lemma backs_status: "backs vs c e \<Longrightarrow> v \<in> set vs \<Longrightarrow> backs vs (c\<lparr>status := Some v\<rparr>) e"
  by (auto simp: backs_def)

lemma backed_map_status:
  assumes "edges_backed vs cs es" and "v \<in> set vs"
  shows "edges_backed vs (map (\<lambda>c. if P c then c\<lparr>status := Some v\<rparr> else c) cs) es"
  unfolding edges_backed_iff
proof
  fix e assume "e \<in> set es"
  with assms(1) obtain c where c: "c \<in> set cs" "backs vs c e"
    by (auto simp: edges_backed_iff)
  let ?f = "\<lambda>c. if P c then c\<lparr>status := Some v\<rparr> else c"
  have "?f c \<in> set (map ?f cs)" using c(1) by (simp del: if_split)
  moreover have "backs vs (?f c) e" using c(2) assms(2) by (simp add: backs_status)
  ultimately show "\<exists>c \<in> set (map ?f cs). backs vs c e" by blast
qed

lemma backed_more_claims: "edges_backed vs cs es \<Longrightarrow> edges_backed vs (cs @ cs') es"
  by (auto simp: edges_backed_iff)

lemma backed_append: "edges_backed vs cs (es @ es') \<longleftrightarrow> edges_backed vs cs es \<and> edges_backed vs cs es'"
  by (auto simp: edges_backed_iff)

lemma backed_more_status: "edges_backed [''approved''] cs es \<Longrightarrow> ''approved'' \<in> set vs \<Longrightarrow> edges_backed vs cs es"
  by (fastforce simp: edges_backed_iff backs_def)

lemma new_edges_backed:
  assumes "\<And>x. x \<in> set cs \<Longrightarrow> hit x \<Longrightarrow> g x = (subject_id x, predicate x, object_value x)"
  shows "edges_backed [''approved'']
           (map (\<lambda>c. if hit c then c\<lparr>status := Some ''approved''\<rparr> else c) cs)
           (map g (filter hit cs))"
  unfolding edges_backed_iff
proof
  fix e assume "e \<in> set (map g (filter hit cs))"
  then obtain x where x: "x \<in> set cs" "hit x" "e = g x" by auto
  let ?f = "\<lambda>c. if hit c then c\<lparr>status := Some ''approved''\<rparr> else c"
  have "?f x \<in> set (map ?f cs)" using x(1) by (simp del: if_split)
  moreover have "backs [''approved''] (?f x) e"
    using x assms[OF x(1,2)] by (simp add: backs_def)
  ultimately show "\<exists>c \<in> set (map ?f cs). backs [''approved''] c e" by blast
qed

text \<open>What a request does to the claims and to the edges.\<close>

lemma evidence_rows_ensure_entity [simp]: "evidence_rows (ensure_entity e st) = evidence_rows st"
  by (simp add: ensure_entity_def)

lemma shapeI:
  assumes "v = ''approved'' \<or> is_reject r \<and> v = ''rejected''"
    and "claims st' = map (\<lambda>c. if hit c then c\<lparr>status := Some v\<rparr> else c) (claims st @ extra)"
    and "edges st' = edges st @ new"
    and "edges_backed [''approved''] (claims st') new"
  shows "shape r st st'"
  unfolding shape_def
  using assms by (intro exI[of _ hit] exI[of _ v] exI[of _ extra] exI[of _ new]) simp

lemma shape_same: "shape r st st"
  by (rule shapeI[of "''approved''" _ _ "\<lambda>c. False" _ "[]" "[]"]) (simp_all add: edges_backed_def)

lemma shape_status:
  assumes "v = ''approved'' \<or> is_reject r \<and> v = ''rejected''"
  shows "shape r st (set_status cid v st)"
  by (rule shapeI[of v _ _ "\<lambda>c. claim_id c = cid" _ "[]" "[]"])
     (simp_all add: assms set_status_def edges_backed_def)

lemma shape_approve_entity: "shape r st (approve_entity cid st)"
proof -
  define hit where "hit = (\<lambda>x::Claim. claim_id x = cid \<and> subject_id x \<in> entities st \<and> object_value x \<in> entities st)"
  define g where "g = (\<lambda>x::Claim. (subject_id x, predicate x, object_value x))"
  have cl: "claims (approve_entity cid st) =
      map (\<lambda>c. if hit c then c\<lparr>status := Some ''approved''\<rparr> else c) (claims st @ [])"
    and ed: "edges (approve_entity cid st) = edges st @ map g (filter hit (claims st))"
    by (simp_all add: approve_entity_def Let_def hit_def g_def)
  have "edges_backed [''approved''] (claims (approve_entity cid st)) (map g (filter hit (claims st)))"
    using new_edges_backed[of "claims st" hit g] by (simp add: cl g_def)
  with cl ed show ?thesis
    by (intro shapeI[of "''approved''" _ _ hit _ "[]" "map g (filter hit (claims st))"]) simp_all
qed

lemma shape_propose: "shape (Propose u claim) st (snd (kg_propose_claim u claim st))"
proof (cases "driver st \<and> u \<notin> claim_id ` set (claims st)")
  case False
  then have "snd (kg_propose_claim u claim st) = st"
    by (auto simp: kg_propose_claim_def)
  then show ?thesis by (simp add: shape_same)
next
  case True
  define c :: Claim where "c = \<lparr>subject_id = subject_id claim, predicate = predicate claim,
             object_kind = object_kind claim, object_value = object_value claim,
             model_conf = model_conf claim, human_conf = human_conf claim,
             context_hash = context_hash claim, evidence = evidence claim,
             provenance = provenance claim, status = status claim, claim_id = u\<rparr>"
  define st3 where "st3 =
     (if object_kind claim = ''entity''
      then ensure_entity (object_value claim) (ensure_entity (subject_id claim) st)
      else ensure_entity (subject_id claim) st)
     \<lparr>claims := claims st @ [c],
      evidence_rows := (if pg_conn st then evidence_rows st @ evidence claim else evidence_rows st)\<rparr>"
  have c3: "claims st3 = claims st @ [c]" and e3: "edges st3 = edges st"
    by (simp_all add: st3_def)
  have res: "snd (kg_propose_claim u claim st) =
      (if status claim = Some ''approved'' \<and> object_kind claim = ''entity''
       then materialize u (subject_id claim) (predicate claim) (object_value claim) st3 else st3)"
    using True by (simp add: kg_propose_claim_def Let_def c_def st3_def)
  show ?thesis
  proof (cases "status claim = Some ''approved'' \<and> object_kind claim = ''entity''")
    case False
    have "shape (Propose u claim) st st3"
      by (rule shapeI[of "''approved''" _ _ "\<lambda>c. False" _ "[c]" "[]"])
         (simp_all add: c3 e3 edges_backed_def)
    moreover have "snd (kg_propose_claim u claim st) = st3"
      using False res by auto
    ultimately show ?thesis by simp
  next
    case mat: True
    define hit where "hit = (\<lambda>x::Claim. claim_id x = u \<and> subject_id claim \<in> entities st3 \<and>
                                  object_value claim \<in> entities st3)"
    define g where "g = (\<lambda>x::Claim. (subject_id claim, predicate claim, object_value claim))"
    let ?st4 = "materialize u (subject_id claim) (predicate claim) (object_value claim) st3"
    have cl: "claims ?st4 = map (\<lambda>c. if hit c then c\<lparr>status := Some ''approved''\<rparr> else c) (claims st @ [c])"
      and ed: "edges ?st4 = edges st @ map g (filter hit (claims st @ [c]))"
      by (simp_all add: materialize_def Let_def hit_def g_def c3 e3)
    have "g x = (subject_id x, predicate x, object_value x)"
      if "x \<in> set (claims st @ [c])" "hit x" for x
    proof -
      from that True have "x = c" by (auto simp: hit_def)
      then show ?thesis by (simp add: g_def c_def)
    qed
    from new_edges_backed[of "claims st @ [c]" hit g, OF this]
    have "edges_backed [''approved''] (claims ?st4) (map g (filter hit (claims st @ [c])))"
      by (simp only: cl)
    with cl ed have "shape (Propose u claim) st ?st4"
      by (intro shapeI[of "''approved''" _ _ hit _ "[c]" "map g (filter hit (claims st @ [c]))"]) simp_all
    moreover have "snd (kg_propose_claim u claim st) = ?st4"
      using mat res by auto
    ultimately show ?thesis by simp
  qed
qed

lemma handle_shape: "shape r st (handle r st)"
proof (cases r)
  case (Propose u claim)
  then show ?thesis by (simp add: shape_propose)
next
  case (Approve cid)
  then show ?thesis
    by (auto simp: kg_approve_def shape_same shape_approve_entity shape_status split: option.splits)
next
  case (Reject cid)
  then show ?thesis
    by (auto simp: kg_reject_def shape_same shape_status)
qed

lemma handle_backed:
  assumes "edges_backed vs (claims st) (edges st)" and "''approved'' \<in> set vs"
    and "is_reject r \<Longrightarrow> ''rejected'' \<in> set vs"
  shows "edges_backed vs (claims (handle r st)) (edges (handle r st))"
proof -
  from handle_shape[of r st, unfolded shape_def] obtain hit v extra new where
    v: "v = ''approved'' \<or> is_reject r \<and> v = ''rejected''"
    and cl: "claims (handle r st) = map (\<lambda>c. if hit c then c\<lparr>status := Some v\<rparr> else c) (claims st @ extra)"
    and ed: "edges (handle r st) = edges st @ new"
    and nw: "edges_backed [''approved''] (claims (handle r st)) new"
    by blast
  from v assms(2,3) have "v \<in> set vs" by auto
  from backed_map_status[OF backed_more_claims[OF assms(1), of extra] this, of hit]
  have "edges_backed vs (claims (handle r st)) (edges st)"
    by (simp add: cl)
  with backed_more_status[OF nw assms(2)] show ?thesis
    by (simp add: ed backed_append)
qed

lemma run_backed:
  assumes "edges_backed vs (claims st) (edges st)" and "''approved'' \<in> set vs"
    and "list_ex is_reject reqs \<Longrightarrow> ''rejected'' \<in> set vs"
  shows "edges_backed vs (claims (run reqs st)) (edges (run reqs st))"
  using assms
proof (induction reqs arbitrary: st)
  case Nil
  then show ?case by (simp add: run_def)
next
  case (Cons r reqs)
  have "edges_backed vs (claims (handle r st)) (edges (handle r st))"
    using Cons.prems by (intro handle_backed) auto
  from Cons.IH[OF this] Cons.prems(2,3) show ?case
    by (simp add: run_def)
qed


text \<open>
  C5 (as the code has it). Every edge a request creates is backed, in the store the
  request leaves, by a claim with its subject, predicate and object and status
  \<open>approved\<close>. In every store reached from the empty one by proposals, approvals
  and rejections, every edge is backed by a claim whose status is \<open>approved\<close> or
  \<open>rejected\<close>; when no rejection was among the requests, by an \<open>approved\<close> one.
\<close>

theorem edges_backed_by_claims:
  "edges_backed [''approved'', ''rejected''] (claims (run reqs empty_store)) (edges (run reqs empty_store)) \<and>
   (\<not> list_ex is_reject reqs \<longrightarrow>
      edges_backed [''approved''] (claims (run reqs empty_store)) (edges (run reqs empty_store))) \<and>
   (\<exists>new. edges (handle r st) = edges st @ new \<and>
          edges_backed [''approved''] (claims (handle r st)) new)"
proof -
  have e: "edges_backed vs (claims empty_store) (edges empty_store)" for vs
    by (simp add: empty_store_def edges_backed_def)
  have "edges_backed [''approved'', ''rejected''] (claims (run reqs empty_store)) (edges (run reqs empty_store))"
    by (rule run_backed[OF e]) simp_all
  moreover have "edges_backed [''approved''] (claims (run reqs empty_store)) (edges (run reqs empty_store))"
    if "\<not> list_ex is_reject reqs"
    by (rule run_backed[OF e]) (use that in simp_all)
  moreover have "\<exists>new. edges (handle r st) = edges st @ new \<and>
          edges_backed [''approved''] (claims (handle r st)) new"
    using handle_shape[of r st] unfolding shape_def by blast
  ultimately show ?thesis by blast
qed

theorem edges_backed_by_claims_witness:
  "\<not> list_ex is_reject [Propose ''c1'' (with_status demo_claim ''pending''), Approve ''c1''] \<and>
   edges (run [Propose ''c1'' (with_status demo_claim ''pending''), Approve ''c1''] empty_store) =
     [(''Run:demo'', ''USES'', ''Model:v2'')] \<and>
   claims (run [Propose ''c1'' (with_status demo_claim ''pending''), Approve ''c1''] empty_store) =
     [demo_node ''approved''] \<and>
   edges_backed [''approved''] [demo_node ''approved''] [(''Run:demo'', ''USES'', ''Model:v2'')]"
proof -
  have r: "edges (run [Propose ''c1'' (with_status demo_claim ''pending''), Approve ''c1''] empty_store) =
     [(''Run:demo'', ''USES'', ''Model:v2'')]"
    "claims (run [Propose ''c1'' (with_status demo_claim ''pending''), Approve ''c1''] empty_store) =
     [demo_node ''approved'']"
    by (simp_all add: demo_claim_def demo_node_def with_status_def ledger_defs Let_def)
  from edges_backed_by_claims[of "[Propose ''c1'' (with_status demo_claim ''pending''), Approve ''c1'']"] r
  show ?thesis
    by simp
qed

text \<open>
  The claim as stated fails after a rejection: \<open>reject\<close> writes the status of an
  approved claim and leaves its edge in place.
\<close>

theorem edges_backed_by_claims_counterexample:
  "edges (run [Propose ''c1'' (with_status demo_claim ''approved''), Reject ''c1''] empty_store) =
     [(''Run:demo'', ''USES'', ''Model:v2'')] \<and>
   claims (run [Propose ''c1'' (with_status demo_claim ''approved''), Reject ''c1''] empty_store) =
     [demo_node ''rejected''] \<and>
   \<not> edges_backed [''approved''] [demo_node ''rejected''] [(''Run:demo'', ''USES'', ''Model:v2'')]"
  by (simp add: demo_claim_def demo_node_def with_status_def ledger_defs Let_def
      edges_backed_def backs_def)

text \<open>
  C6. The code does not have the property: \<open>approve\<close> creates a relationship at every
  call. The auto-merged example proposal ends with two edges
  \<open>Run:demo -USES-> Model:v2\<close>, one from the ledger's \<open>propose_claim\<close> and one from
  the gate's follow-up \<open>approve\<close>, and three approvals of one pending claim leave
  three.
\<close>

theorem approve_duplicates_edge:
  "fst (gw_propose_claim default_config (kg_live ''c1'') demo_claim empty_store) =
     Inr \<lparr>decision = ''T1-auto-merge'', trust = 0.985, min_quality_ok = True, no_conflict = True,
          kg = demo_node ''approved''\<rparr> \<and>
   edges (snd (gw_propose_claim default_config (kg_live ''c1'') demo_claim empty_store)) =
     [(''Run:demo'', ''USES'', ''Model:v2''), (''Run:demo'', ''USES'', ''Model:v2'')] \<and>
   edges (run [Propose ''c1'' (with_status demo_claim ''approved'')] empty_store) =
     [(''Run:demo'', ''USES'', ''Model:v2'')] \<and>
   edges (run [Propose ''c1'' (with_status demo_claim ''approved''), Approve ''c1''] empty_store) =
     [(''Run:demo'', ''USES'', ''Model:v2''), (''Run:demo'', ''USES'', ''Model:v2'')] \<and>
   edges (run [Propose ''c1'' (with_status demo_claim ''pending''), Approve ''c1'', Approve ''c1'',
               Approve ''c1''] empty_store) =
     [(''Run:demo'', ''USES'', ''Model:v2''), (''Run:demo'', ''USES'', ''Model:v2''),
      (''Run:demo'', ''USES'', ''Model:v2'')]"
  by (simp add: demo_claim_def demo_node_def gate_defs ledger_defs Let_def)


end
